theory Spec2Isabelle
  imports Main "HOL-Library.Sublist" "HOL-Library.AList"
begin

section \<open>Documents, identifiers and errors\<close>

text \<open>
  The program is an Express server (\<^verbatim>\<open>part_000\<close>) over a thin MongoDB access module
  (\<^verbatim>\<open>libs/mongo.ts\<close>).  Both are embedded below function by function, with the source's
  names.  The MongoDB driver and the server behind it are not part of the repository; the
  few primitives of theirs that the code calls are modelled in their own sections, and
  whatever the code cannot determine (whether a connection attempt succeeds, which
  identifier the generator hands out, the time, how the store orders documents) is read
  from fields of the \<open>world\<close> record that play the role of the environment.

  Strings are byte strings read as ASCII text: letter case and the wildcard of a regular
  expression are the ASCII ones.
\<close>

text \<open>An ObjectId is its 12 bytes.\<close>

type_synonym objectid = string

datatype bson =
    BNull
  | BBool bool
  | BNum int
  | BStr string
  | BOid objectid
  | BDate int
  | BArr "bson list"
  | BDoc "(string \<times> bson) list"

text \<open>A document is the list of its fields in order; a field is read with \<open>map_of\<close>.\<close>

type_synonym document = "(string \<times> bson) list"

text \<open>
  Every way in which a call of the program can fail:
  \<^item> \<open>NotConnected\<close>: \<^verbatim>\<open>Promise.reject("Not connected")\<close> in \<^verbatim>\<open>Close\<close> and \<^verbatim>\<open>Collection\<close>;
  \<^item> \<open>ClientUndefined\<close>: \<^verbatim>\<open>reject("client is undefined")\<close> in \<^verbatim>\<open>Connect\<close>;
  \<^item> \<open>DriverError\<close>: the error the driver hands to the callback of
    \<^verbatim>\<open>MongoClient.connect\<close>, or throws from \<^verbatim>\<open>client.db\<close>;
  \<^item> \<open>TypeError\<close>: JavaScript reading a property of \<^verbatim>\<open>undefined\<close>;
  \<^item> \<open>BSONTypeError\<close>: \<^verbatim>\<open>new ObjectId(s)\<close> on a string that is not an identifier;
  \<^item> \<open>MongoNotConnectedError\<close>: the driver refusing an operation on a closed client;
  \<^item> \<open>MongoServerError\<close>: the store rejecting a command.
\<close>

datatype error =
    NotConnected
  | ClientUndefined
  | DriverError string
  | TypeError
  | BSONTypeError
  | MongoNotConnectedError
  | MongoServerError string

subsection \<open>\<^verbatim>\<open>new ObjectId(string)\<close>\<close>

text \<open>
  The driver's constructor accepts a string of 12 bytes, taken as they are, or a string
  of 24 hexadecimal digits, decoded pairwise; anything else throws.
\<close>

definition hexval :: "char \<Rightarrow> nat option" where
  "hexval c =
     (let n = (of_char c :: nat) in
      if 48 \<le> n \<and> n \<le> 57 then Some (n - 48)
      else if 97 \<le> n \<and> n \<le> 102 then Some (n - 87)
      else if 65 \<le> n \<and> n \<le> 70 then Some (n - 55)
      else None)"

fun hex_decode :: "string \<Rightarrow> string option" where
  "hex_decode [] = Some []"
| "hex_decode [c] = None"
| "hex_decode (a # b # cs) =
     (case hexval a of
        None \<Rightarrow> None
      | Some h \<Rightarrow>
          (case hexval b of
             None \<Rightarrow> None
           | Some l \<Rightarrow>
               (case hex_decode cs of
                  None \<Rightarrow> None
                | Some r \<Rightarrow> Some (char_of (16 * h + l) # r))))"

definition ascii :: "char \<Rightarrow> bool" where
  "ascii c = ((of_char c :: nat) < 128)"

definition ObjectId_of_string :: "string \<Rightarrow> error + objectid" where
  "ObjectId_of_string s =
     (if length s = 12 \<and> list_all ascii s then Inr s
      else if length s = 24 then
        (case hex_decode s of Some bytes \<Rightarrow> Inr bytes | None \<Rightarrow> Inl BSONTypeError)
      else Inl BSONTypeError)"

section \<open>Queries, projections and cursors of the store\<close>

text \<open>
  A filter is a conjunction of conditions on fields.  The route handlers build two kinds
  of condition: equality with a value (\<^verbatim>\<open>{"_id": oid}\<close>) and a regular expression with an
  option string (\<^verbatim>\<open>{"title": {$regex: t, $options: o}}\<close>).
\<close>

datatype cond = Eq bson | Regex string string

type_synonym query = "(string \<times> cond) list"

text \<open>A projection maps field names to \<^verbatim>\<open>1\<close> (\<open>True\<close>) or \<^verbatim>\<open>0\<close> (\<open>False\<close>).\<close>

type_synonym projection = "(string \<times> bool) list"

text \<open>A sort specification lists fields with a direction, \<^verbatim>\<open>1\<close> or \<^verbatim>\<open>-1\<close>.\<close>

type_synonym sort_keys = "(string \<times> int) list"

text \<open>The TypeScript types \<^verbatim>\<open>string | object\<close> of \<open>sort\<close> and \<^verbatim>\<open>number | boolean\<close> of \<open>limit\<close>.\<close>

datatype sort_arg = SortStr string | SortObj sort_keys

datatype limit_arg = LimBool bool | LimNum int

text \<open>What \<^verbatim>\<open>Find\<close> resolves to: the array, or its first element, or \<^verbatim>\<open>undefined\<close>.\<close>

datatype find_result = Docs "document list" | Doc document | Undefined

text \<open>The driver's \<^verbatim>\<open>InsertOneResult\<close>: \<^verbatim>\<open>acknowledged\<close> and \<^verbatim>\<open>insertedId\<close>.\<close>

datatype insert_result = InsertOneResult bool bson

text \<open>
  The calls the module forwards to the driver.  \<open>sent\<close> in the world lists those that
  reached the store, oldest first.
\<close>

datatype driver_call =
    CallFind string query projection sort_keys int int
  | CallDistinct string string query "document option"
  | CallListCollections string
  | CallInsertOne string document document
  | CallInsertMany string "document list" "document option"
  | CallDeleteOne string query document
  | CallDeleteMany string query document
  | CallUpdateOne string query document document
  | CallUpdateMany string query document document
  | CallCountDocuments string query "int option"
  | CallAggregate string "document list" document
  | CallCreateIndex string document
  | CallStats string

text \<open>What a route sends as the response body, and what \<^verbatim>\<open>console.log\<close> is given.\<close>

datatype body = BodyText string | BodyFind find_result | BodyInsert insert_result

datatype logged = LStr string | LErr error | LBody body | LQuery query

section \<open>The module state and its environment\<close>

text \<open>
  The configuration object \<^verbatim>\<open>{uri, db, options}\<close> that \<^verbatim>\<open>Connect\<close> receives.  The routes
  read it from \<^verbatim>\<open>./config\<close>, which is not among the sources: they take it as a parameter.
\<close>

record config =
  uri :: string
  db :: string
  options :: document

text \<open>A client is numbered by the connection attempt that produced it.\<close>

type_synonym client = nat

datatype db_handle = Db client string

text \<open>What the callback of \<^verbatim>\<open>MongoClient.connect\<close> is called with.\<close>

datatype connect_reply = CbErr string | CbNoClient | CbClient

text \<open>
  \<open>DB\<close> and \<open>clientDB\<close> are the two module variables of \<^verbatim>\<open>mongo.ts\<close> (\<open>None\<close> is
  \<^verbatim>\<open>undefined\<close>).  The other fields are the world around the module:
  \<^item> \<open>net n\<close>: how the driver answers the \<open>n\<close>-th call of \<^verbatim>\<open>MongoClient.connect\<close>;
    \<open>dialled\<close> counts the calls made so far;
  \<^item> \<open>closed\<close>: the clients on which \<^verbatim>\<open>close()\<close> has been called;
  \<^item> \<open>oid_source n\<close>: the \<open>n\<close>-th identifier that \<^verbatim>\<open>new ObjectId()\<close> generates;
    \<open>oid_made\<close> counts those generated so far;
  \<^item> \<open>clock\<close>: what \<^verbatim>\<open>new Date()\<close> reads;
  \<^item> \<open>collections\<close>: the documents of each collection, in the store's natural order;
  \<^item> \<open>ordering\<close>: how the store orders documents under a non-empty sort specification;
  \<^item> \<open>pcre p o\<close>: the store's regular expression engine on a pattern \<open>p\<close> with options
    \<open>o\<close> that this theory does not interpret itself: the test it compiles to, or \<open>None\<close>
    when it rejects the pattern;
  \<^item> \<open>sent\<close>: the calls that reached the store; \<open>console\<close>: the lines logged.
\<close>

record world =
  DB :: "db_handle option"
  clientDB :: "client option"
  net :: "nat \<Rightarrow> connect_reply"
  dialled :: nat
  closed :: "client list"
  oid_source :: "nat \<Rightarrow> objectid"
  oid_made :: nat
  clock :: int
  collections :: "(string \<times> document list) list"
  ordering :: "sort_keys \<Rightarrow> document list \<Rightarrow> document list"
  pcre :: "string \<Rightarrow> string \<Rightarrow> (string \<Rightarrow> bool) option"
  sent :: "driver_call list"
  console :: "logged list list"

section \<open>Connection manager (\<^verbatim>\<open>mongo.ts\<close>, lines 14--49)\<close>

text \<open>
  \<^verbatim>\<open>client.db(name)\<close> constructs a \<^verbatim>\<open>Db\<close>, which validates the name: not empty, and
  apart from \<^verbatim>\<open>$external\<close> free of space, dot, dollar, slash and backslash.  For an empty
  \<open>name\<close> the client takes the database of its connection string instead, and nothing is
  thrown.
\<close>

definition validateDatabaseName :: "string \<Rightarrow> bool" where
  "validateDatabaseName n =
     (n \<noteq> [] \<and>
      (n = ''$external'' \<or>
       list_all (\<lambda>c. c \<notin> set [CHR '' '', CHR ''.'', CHR ''$'', CHR ''/'', CHR 0x5C]) n))"

definition client_db :: "client \<Rightarrow> string \<Rightarrow> error + db_handle" where
  "client_db c name =
     (if name = [] \<or> validateDatabaseName name then Inr (Db c name)
      else Inl (DriverError ''invalid database name''))"

text \<open>
  \<^verbatim>\<open>Connect\<close>: returns at once when \<open>DB\<close> is set.  Otherwise it calls the driver; on a
  client it assigns \<open>clientDB\<close> first and \<open>DB\<close> only if \<^verbatim>\<open>client.db\<close> does not throw.  It
  resolves to \<^verbatim>\<open>undefined\<close> (\<open>None\<close>) in the first case and to \<^verbatim>\<open>true\<close> after connecting.
\<close>

definition Connect :: "world \<Rightarrow> config \<Rightarrow> (error + bool option) \<times> world" where
  "Connect w conf =
     (case DB w of
        Some d \<Rightarrow> (Inr None, w)
      | None \<Rightarrow>
          (let n = dialled w; w1 = w\<lparr>dialled := Suc n\<rparr> in
           case net w n of
             CbErr e \<Rightarrow> (Inl (DriverError e), w1)
           | CbNoClient \<Rightarrow> (Inl ClientUndefined, w1)
           | CbClient \<Rightarrow>
               (let w2 = w1\<lparr>clientDB := Some n\<rparr> in
                case client_db n (db conf) of
                  Inl err \<Rightarrow> (Inl err, w2)
                | Inr d \<Rightarrow> (Inr (Some True), w2\<lparr>DB := Some d\<rparr>))))"

text \<open>\<^verbatim>\<open>Close\<close>: closes \<open>clientDB\<close>; neither module variable is assigned.\<close>

definition Close :: "world \<Rightarrow> (error + unit) \<times> world" where
  "Close w =
     (case clientDB w of
        None \<Rightarrow> (Inl NotConnected, w)
      | Some c \<Rightarrow> (Inr (), w\<lparr>closed := c # closed w\<rparr>))"

text \<open>\<^verbatim>\<open>Collection\<close>: the collection handle, a database handle with a collection name.\<close>

definition Collection :: "world \<Rightarrow> string \<Rightarrow> error + (db_handle \<times> string)" where
  "Collection w collectionName =
     (case DB w of
        None \<Rightarrow> Inl NotConnected
      | Some d \<Rightarrow> Inr (d, collectionName))"

text \<open>
  The number of connections the driver has established: the attempts so far that it
  answered with a client.
\<close>

definition established :: "world \<Rightarrow> nat" where
  "established w = length (filter (\<lambda>n. net w n = CbClient) [0..<dialled w])"

section \<open>The store behind the driver: matching, projecting, finding, inserting\<close>

subsection \<open>Regular expressions\<close>

text \<open>
  The store matches \<^verbatim>\<open>$regex\<close> patterns with a PCRE engine, searching the subject for a
  match at any position.  This theory interprets the patterns made of literal characters
  and of the wildcard \<^verbatim>\<open>.\<close> (any character but a newline), under option strings made of
  \<^verbatim>\<open>i\<close> (ignore case) and \<^verbatim>\<open>$\<close> (no flag; the servers the program was written against skip
  it).  Any other pattern or option is handed to \<open>pcre\<close> of the world.
\<close>

definition metachars :: "char list" where
  "metachars =
     [CHR 0x5C, CHR ''^'', CHR ''$'', CHR ''.'', CHR ''|'', CHR ''?'', CHR ''*'', CHR ''+'',
      CHR ''('', CHR '')'', CHR ''['', CHR '']'', CHR ''{'', CHR ''}'']"

definition lower :: "char \<Rightarrow> char" where
  "lower c =
     (let n = (of_char c :: nat) in if 65 \<le> n \<and> n \<le> 90 then char_of (n + 32) else c)"

definition char_matches :: "bool \<Rightarrow> char \<Rightarrow> char \<Rightarrow> bool" where
  "char_matches caseless p c =
     (if p = CHR ''.'' then c \<noteq> CHR 0x0A
      else if caseless then lower p = lower c
      else p = c)"

fun match_here :: "bool \<Rightarrow> string \<Rightarrow> string \<Rightarrow> bool" where
  "match_here caseless [] s = True"
| "match_here caseless (p # ps) [] = False"
| "match_here caseless (p # ps) (c # cs) =
     (char_matches caseless p c \<and> match_here caseless ps cs)"

fun search :: "bool \<Rightarrow> string \<Rightarrow> string \<Rightarrow> bool" where
  "search caseless p [] = match_here caseless p []"
| "search caseless p (c # cs) = (match_here caseless p (c # cs) \<or> search caseless p cs)"

definition interpreted :: "string \<Rightarrow> string \<Rightarrow> bool" where
  "interpreted p opts =
     (list_all (\<lambda>c. c = CHR ''.'' \<or> c \<notin> set metachars) p \<and>
      list_all (\<lambda>c. c = CHR ''i'' \<or> c = CHR ''$'') opts)"

definition compile_regex :: "world \<Rightarrow> string \<Rightarrow> string \<Rightarrow> (string \<Rightarrow> bool) option" where
  "compile_regex w p opts =
     (if interpreted p opts then Some (search (CHR ''i'' \<in> set opts) p)
      else pcre w p opts)"

subsection \<open>Filters\<close>

text \<open>
  A condition is compiled to a test on the value of its field (\<open>None\<close>: the field is
  missing).  Equality compares the stored value with the given one, \<^verbatim>\<open>null\<close> also matching
  a missing field; a regular expression holds of string values only.  The store's matching
  of a value against the elements of a stored array is not modelled.
\<close>

fun compile_cond :: "world \<Rightarrow> cond \<Rightarrow> (bson option \<Rightarrow> bool) option" where
  "compile_cond w (Eq v) = Some (\<lambda>x. x = Some v \<or> (v = BNull \<and> x = None))"
| "compile_cond w (Regex p opts) =
     (case compile_regex w p opts of
        None \<Rightarrow> None
      | Some yes \<Rightarrow> Some (\<lambda>x. case x of Some (BStr s) \<Rightarrow> yes s | _ \<Rightarrow> False))"

fun compile_query :: "world \<Rightarrow> query \<Rightarrow> (document \<Rightarrow> bool) option" where
  "compile_query w [] = Some (\<lambda>d. True)"
| "compile_query w ((f, c) # q) =
     (case compile_cond w c of
        None \<Rightarrow> None
      | Some holds \<Rightarrow>
          (case compile_query w q of
             None \<Rightarrow> None
           | Some rest \<Rightarrow> Some (\<lambda>d. holds (map_of d f) \<and> rest d)))"

subsection \<open>Projections\<close>

text \<open>
  A projection that includes fields keeps them and \<^verbatim>\<open>_id\<close>, unless \<^verbatim>\<open>_id\<close> is mapped to
  \<^verbatim>\<open>0\<close>; one that excludes fields drops them; the empty one keeps the document.  Apart
  from \<^verbatim>\<open>_id\<close>, inclusion and exclusion cannot be mixed.
\<close>

definition project :: "projection \<Rightarrow> (document \<Rightarrow> document) option" where
  "project p =
     (let others = filter (\<lambda>(k, b). k \<noteq> ''_id'') p;
          inc = map fst (filter snd others);
          exc = map fst (filter (\<lambda>(k, b). \<not> b) others);
          ident = map_of p ''_id''
      in if inc \<noteq> [] \<and> exc \<noteq> [] then None
         else if inc \<noteq> [] then
           Some (filter (\<lambda>(k, v). (k = ''_id'' \<and> ident \<noteq> Some False) \<or> k \<in> set inc))
         else if exc \<noteq> [] then
           Some (filter (\<lambda>(k, v). k \<notin> set exc \<and> (k \<noteq> ''_id'' \<or> ident \<noteq> Some False)))
         else
           (case ident of
              None \<Rightarrow> Some (\<lambda>d. d)
            | Some True \<Rightarrow> Some (filter (\<lambda>(k, v). k = ''_id''))
            | Some False \<Rightarrow> Some (filter (\<lambda>(k, v). k \<noteq> ''_id''))))"

subsection \<open>Running a find command\<close>

definition docs_of :: "world \<Rightarrow> string \<Rightarrow> document list" where
  "docs_of w coll = (case map_of (collections w) coll of None \<Rightarrow> [] | Some ds \<Rightarrow> ds)"

text \<open>
  The store filters, sorts, skips, limits and projects, in this order whatever the order
  in which the cursor was configured.  A limit of \<^verbatim>\<open>0\<close> is no limit; the driver sends a
  negative limit as its absolute value; the store rejects a negative skip.
\<close>

definition store_find ::
  "world \<Rightarrow> string \<Rightarrow> query \<Rightarrow> projection \<Rightarrow> sort_keys \<Rightarrow> int \<Rightarrow> int \<Rightarrow> error + document list"
where
  "store_find w coll q p keys lim skp =
     (case compile_query w q of
        None \<Rightarrow> Inl (MongoServerError ''regular expression rejected'')
      | Some holds \<Rightarrow>
          (case project p of
             None \<Rightarrow> Inl (MongoServerError ''projection mixes inclusion and exclusion'')
           | Some proj \<Rightarrow>
               if skp < 0 then Inl (MongoServerError ''negative skip'')
               else
                 (let matching = filter holds (docs_of w coll);
                      sorted = (if keys = [] then matching else ordering w keys matching);
                      skipped = drop (nat skp) sorted;
                      limited = (if lim = 0 then skipped else take (nat \<bar>lim\<bar>) skipped)
                  in Inr (map proj limited))))"

subsection \<open>Cursors\<close>

text \<open>
  A find cursor is the command it will send: \<^verbatim>\<open>project\<close>, \<^verbatim>\<open>sort\<close>, \<^verbatim>\<open>limit\<close> and \<^verbatim>\<open>skip\<close>
  set its options, and \<^verbatim>\<open>toArray\<close> sends it, unless the client has been closed in the
  meantime.
\<close>

record cursor =
  c_db :: db_handle
  c_coll :: string
  c_filter :: query
  c_projection :: projection
  c_sort :: sort_keys
  c_limit :: int
  c_skip :: int

definition is_closed :: "world \<Rightarrow> db_handle \<Rightarrow> bool" where
  "is_closed w d = (case d of Db c n \<Rightarrow> c \<in> set (closed w))"

text \<open>
  \<^verbatim>\<open>collection.find\<close> creates the cursor; like every operation of the driver on a collection
  it throws when the client has been closed.
\<close>

definition collection_find ::
  "world \<Rightarrow> db_handle \<times> string \<Rightarrow> query \<Rightarrow> projection option \<Rightarrow> error + cursor"
where
  "collection_find w c q p =
     (if is_closed w (fst c) then Inl MongoNotConnectedError
      else Inr \<lparr>c_db = fst c, c_coll = snd c, c_filter = q,
                c_projection = (case p of None \<Rightarrow> [] | Some pr \<Rightarrow> pr),
                c_sort = [], c_limit = 0, c_skip = 0\<rparr>)"

definition sort_keys_of :: "sort_arg \<Rightarrow> sort_keys" where
  "sort_keys_of s = (case s of SortStr f \<Rightarrow> [(f, 1)] | SortObj ks \<Rightarrow> ks)"

definition toArray :: "world \<Rightarrow> cursor \<Rightarrow> (error + document list) \<times> world" where
  "toArray w cur =
     (if is_closed w (c_db cur) then (Inl MongoNotConnectedError, w)
      else
        (store_find w (c_coll cur) (c_filter cur) (c_projection cur) (c_sort cur)
           (c_limit cur) (c_skip cur),
         w\<lparr>sent := sent w @
              [CallFind (c_coll cur) (c_filter cur) (c_projection cur) (c_sort cur)
                 (c_limit cur) (c_skip cur)]\<rparr>))"

subsection \<open>Inserting one document\<close>

text \<open>
  The driver gives a document without \<^verbatim>\<open>_id\<close> a generated one, added as its last field,
  and sends it; the store keeps \<^verbatim>\<open>_id\<close> as the first field and rejects an \<^verbatim>\<open>_id\<close> that
  the collection already holds.
\<close>

definition collection_insertOne ::
  "world \<Rightarrow> db_handle \<times> string \<Rightarrow> document \<Rightarrow> document \<Rightarrow> (error + insert_result) \<times> world"
where
  "collection_insertOne w c doc opts =
     (if is_closed w (fst c) then (Inl MongoNotConnectedError, w)
      else
        (let w1 = (case map_of doc ''_id'' of
                     Some v \<Rightarrow> w
                   | None \<Rightarrow> w\<lparr>oid_made := Suc (oid_made w)\<rparr>);
             ident = (case map_of doc ''_id'' of
                        Some v \<Rightarrow> v
                      | None \<Rightarrow> BOid (oid_source w (oid_made w)));
             posted = (case map_of doc ''_id'' of
                         Some v \<Rightarrow> doc
                       | None \<Rightarrow> doc @ [(''_id'', ident)]);
             stored = (''_id'', ident) # filter (\<lambda>(k, v). k \<noteq> ''_id'') doc;
             w2 = w1\<lparr>sent := sent w1 @ [CallInsertOne (snd c) posted opts]\<rparr>
         in if Some ident \<in> set (map (\<lambda>d. map_of d ''_id'') (docs_of w (snd c)))
            then (Inl (MongoServerError ''E11000 duplicate key''), w2)
            else (Inr (InsertOneResult True ident),
                  w2\<lparr>collections :=
                       AList.update (snd c) (docs_of w (snd c) @ [stored]) (collections w)\<rparr>)))"

text \<open>
  The other calls are forwarded as they are: what they answer, and what they do to the
  stored documents, is the store's and is not interpreted here.
\<close>

definition forward :: "world \<Rightarrow> db_handle \<Rightarrow> driver_call \<Rightarrow> (error + driver_call) \<times> world" where
  "forward w d call =
     (if is_closed w d then (Inl MongoNotConnectedError, w)
      else (Inr call, w\<lparr>sent := sent w @ [call]\<rparr>))"

section \<open>Query facade (\<^verbatim>\<open>mongo.ts\<close>, lines 59--228)\<close>

text \<open>JavaScript's \<^verbatim>\<open>if (x)\<close> and \<^verbatim>\<open>x == true\<close> on the arguments of the facade.\<close>

definition truthy_sort :: "sort_arg \<Rightarrow> bool" where
  "truthy_sort s = (case s of SortStr f \<Rightarrow> f \<noteq> [] | SortObj ks \<Rightarrow> True)"

definition truthy_limit :: "limit_arg \<Rightarrow> bool" where
  "truthy_limit l = (case l of LimBool b \<Rightarrow> b | LimNum n \<Rightarrow> n \<noteq> 0)"

definition loosely_true :: "limit_arg \<Rightarrow> bool" where
  "loosely_true l = (case l of LimBool b \<Rightarrow> b | LimNum n \<Rightarrow> n = 1)"

definition limit_number :: "limit_arg \<Rightarrow> int" where
  "limit_number l = (if loosely_true l then 1 else (case l of LimNum n \<Rightarrow> n | LimBool b \<Rightarrow> 0))"

text \<open>\<^verbatim>\<open>x || {}\<close> on an object argument, where \<open>None\<close> is a missing or null one.\<close>

definition or_empty :: "'a list option \<Rightarrow> 'a list" where
  "or_empty x = (case x of None \<Rightarrow> [] | Some given \<Rightarrow> given)"

text \<open>\<^verbatim>\<open>FindCursor\<close>, lines 84--92.\<close>

definition FindCursor ::
  "world \<Rightarrow> string \<Rightarrow> query \<Rightarrow> projection option \<Rightarrow> sort_arg \<Rightarrow> limit_arg \<Rightarrow> int \<Rightarrow> error + cursor"
where
  "FindCursor w collectionName query projection sort' limit skip =
     (case Collection w collectionName of
        Inl e \<Rightarrow> Inl e
      | Inr collection \<Rightarrow>
          (case collection_find w collection query projection of
             Inl e \<Rightarrow> Inl e
           | Inr cursor0 \<Rightarrow>
               (let cursor1 = (case projection of
                                 Some p \<Rightarrow> cursor0\<lparr>c_projection := p\<rparr>
                               | None \<Rightarrow> cursor0);
                    cursor2 = (if truthy_sort sort'
                               then cursor1\<lparr>c_sort := sort_keys_of sort'\<rparr> else cursor1);
                    cursor3 = (if truthy_limit limit
                               then cursor2\<lparr>c_limit := limit_number limit\<rparr> else cursor2);
                    cursor4 = (if skip \<noteq> 0 then cursor3\<lparr>c_skip := skip\<rparr> else cursor3)
                in Inr cursor4)))"

text \<open>\<^verbatim>\<open>Find\<close>, lines 59--63: \<^verbatim>\<open>limit === true ? result[0] : result\<close>.\<close>

definition Find ::
  "world \<Rightarrow> string \<Rightarrow> query \<Rightarrow> projection option \<Rightarrow> sort_arg \<Rightarrow> limit_arg \<Rightarrow> int
     \<Rightarrow> (error + find_result) \<times> world"
where
  "Find w collectionName query projection sort' limit skip =
     (case FindCursor w collectionName query (Some (or_empty projection)) sort' limit skip of
        Inl e \<Rightarrow> (Inl e, w)
      | Inr cursor \<Rightarrow>
          (case toArray w cursor of
             (Inl e, w') \<Rightarrow> (Inl e, w')
           | (Inr result, w') \<Rightarrow>
               (Inr (if limit = LimBool True
                     then (case result of [] \<Rightarrow> Undefined | d # ds \<Rightarrow> Doc d)
                     else Docs result), w')))"

text \<open>\<^verbatim>\<open>InsertOne\<close>, lines 109--113.\<close>

definition InsertOne ::
  "world \<Rightarrow> string \<Rightarrow> document \<Rightarrow> document option \<Rightarrow> (error + insert_result) \<times> world"
where
  "InsertOne w collectionName document opts =
     (let options' = or_empty opts in
      case Collection w collectionName of
        Inl e \<Rightarrow> (Inl e, w)
      | Inr collection \<Rightarrow> collection_insertOne w collection document options')"

text \<open>
  \<^verbatim>\<open>CollectionExist\<close>, lines 98--100, reads \<^verbatim>\<open>DB.listCollections\<close> without going through
  \<^verbatim>\<open>Collection\<close>: on an undefined \<open>DB\<close> the property read throws.
\<close>

definition CollectionExist :: "world \<Rightarrow> string \<Rightarrow> (error + bool) \<times> world" where
  "CollectionExist w collectionName =
     (case DB w of
        None \<Rightarrow> (Inl TypeError, w)
      | Some d \<Rightarrow>
          if is_closed w d then (Inl MongoNotConnectedError, w)
          else (Inr (map_of (collections w) collectionName \<noteq> None),
                w\<lparr>sent := sent w @ [CallListCollections collectionName]\<rparr>))"

text \<open>The pass-through operations: each awaits \<^verbatim>\<open>Collection\<close> and forwards one call.\<close>

definition via_collection ::
  "world \<Rightarrow> string \<Rightarrow> (string \<Rightarrow> driver_call) \<Rightarrow> (error + driver_call) \<times> world"
where
  "via_collection w collectionName call =
     (case Collection w collectionName of
        Inl e \<Rightarrow> (Inl e, w)
      | Inr collection \<Rightarrow> forward w (fst collection) (call (snd collection)))"

definition Distinct ::
  "world \<Rightarrow> string \<Rightarrow> string \<Rightarrow> query \<Rightarrow> document option \<Rightarrow> (error + driver_call) \<times> world"
where
  "Distinct w collectionName field query opts =
     via_collection w collectionName (\<lambda>c. CallDistinct c field query opts)"

definition InsertMany ::
  "world \<Rightarrow> string \<Rightarrow> document list \<Rightarrow> document option \<Rightarrow> (error + driver_call) \<times> world"
where
  "InsertMany w collectionName documents opts =
     via_collection w collectionName (\<lambda>c. CallInsertMany c documents opts)"

definition DeleteOne ::
  "world \<Rightarrow> string \<Rightarrow> query \<Rightarrow> document option \<Rightarrow> (error + driver_call) \<times> world"
where
  "DeleteOne w collectionName query opts =
     via_collection w collectionName (\<lambda>c. CallDeleteOne c query (or_empty opts))"

definition DeleteMany ::
  "world \<Rightarrow> string \<Rightarrow> query \<Rightarrow> document option \<Rightarrow> (error + driver_call) \<times> world"
where
  "DeleteMany w collectionName query opts =
     via_collection w collectionName (\<lambda>c. CallDeleteMany c query (or_empty opts))"

definition UpdateOne ::
  "world \<Rightarrow> string \<Rightarrow> query \<Rightarrow> document \<Rightarrow> document option \<Rightarrow> (error + driver_call) \<times> world"
where
  "UpdateOne w collectionName query update opts =
     via_collection w collectionName (\<lambda>c. CallUpdateOne c query update (or_empty opts))"

definition UpdateMany ::
  "world \<Rightarrow> string \<Rightarrow> query \<Rightarrow> document \<Rightarrow> document option \<Rightarrow> (error + driver_call) \<times> world"
where
  "UpdateMany w collectionName query update opts =
     via_collection w collectionName (\<lambda>c. CallUpdateMany c query update (or_empty opts))"

definition Count ::
  "world \<Rightarrow> string \<Rightarrow> query \<Rightarrow> limit_arg \<Rightarrow> (error + driver_call) \<times> world"
where
  "Count w collectionName query limit =
     via_collection w collectionName
       (\<lambda>c. if truthy_limit limit then CallCountDocuments c query (Some (limit_number limit))
            else CallCountDocuments c query None)"

definition Aggregate ::
  "world \<Rightarrow> string \<Rightarrow> document list \<Rightarrow> document \<Rightarrow> (error + driver_call) \<times> world"
where
  "Aggregate w collectionName query_aggregate opts =
     via_collection w collectionName (\<lambda>c. CallAggregate c query_aggregate opts)"

text \<open>
  \<^verbatim>\<open>Aggregate_cursor\<close> returns the cursor unread: nothing is sent yet.  Creating the
  cursor throws when the client has been closed.
\<close>

definition Aggregate_cursor ::
  "world \<Rightarrow> string \<Rightarrow> document list \<Rightarrow> document \<Rightarrow> (error + driver_call) \<times> world"
where
  "Aggregate_cursor w collectionName query_aggregate opts =
     (case Collection w collectionName of
        Inl e \<Rightarrow> (Inl e, w)
      | Inr collection \<Rightarrow>
          if is_closed w (fst collection) then (Inl MongoNotConnectedError, w)
          else (Inr (CallAggregate (snd collection) query_aggregate opts), w))"

definition CreateIndex :: "world \<Rightarrow> string \<Rightarrow> document \<Rightarrow> (error + driver_call) \<times> world" where
  "CreateIndex w collectionName indexData =
     via_collection w collectionName (\<lambda>c. CallCreateIndex c indexData)"

definition Stats :: "world \<Rightarrow> string \<Rightarrow> (error + driver_call) \<times> world" where
  "Stats w collectionName = via_collection w collectionName CallStats"

section \<open>Route handlers (\<^verbatim>\<open>part_000\<close>)\<close>

text \<open>
  Every query function starts with
  \<^verbatim>\<open>try { await mongo.Connect(config.mongo) } catch (error) { console.log(msg, error) }\<close>.
\<close>

definition connect_or_log :: "world \<Rightarrow> config \<Rightarrow> string \<Rightarrow> world" where
  "connect_or_log w conf msg =
     (case Connect w conf of
        (Inl e, w') \<Rightarrow> w'\<lparr>console := console w' @ [[LStr msg, LErr e]]\<rparr>
      | (Inr r, w') \<Rightarrow> w')"

text \<open>\<^verbatim>\<open>obtenerPeliculasPorTitulo\<close>, lines 35--55.\<close>

definition obtenerPeliculasPorTitulo ::
  "world \<Rightarrow> config \<Rightarrow> string \<Rightarrow> (error + find_result) \<times> world"
where
  "obtenerPeliculasPorTitulo w conf title =
     (let query = [(''title'', Regex title ''$i'')];
          w1 = connect_or_log w conf ''Error conectando a base de datos: '';
          projection = [(''title'', True), (''_id'', True)]
      in Find w1 ''movies'' query (Some projection) (SortObj []) (LimBool False) 0)"

text \<open>\<^verbatim>\<open>respuesta[0]\<close> on what \<^verbatim>\<open>Find\<close> resolved to.\<close>

definition index0 :: "find_result \<Rightarrow> error + find_result" where
  "index0 r =
     (case r of
        Docs [] \<Rightarrow> Inr Undefined
      | Docs (d # ds) \<Rightarrow> Inr (Doc d)
      | Doc d \<Rightarrow> Inr Undefined
      | Undefined \<Rightarrow> Inl TypeError)"

text \<open>\<^verbatim>\<open>obtenerDetalle\<close>, lines 67--85.\<close>

definition obtenerDetalle ::
  "world \<Rightarrow> config \<Rightarrow> string \<Rightarrow> (error + find_result) \<times> world"
where
  "obtenerDetalle w conf movieId =
     (let w1 = connect_or_log w conf ''Error conectando a base de datos: '' in
      case ObjectId_of_string movieId of
        Inl e \<Rightarrow> (Inl e, w1)
      | Inr oid \<Rightarrow>
          (let query = [(''_id'', Eq (BOid oid))];
               projection =
                 [(''title'', True), (''year'', True), (''directors'', True), (''plot'', True)]
           in case Find w1 ''movies'' query (Some projection) (SortObj []) (LimBool False) 0 of
                (Inl e, w2) \<Rightarrow> (Inl e, w2)
              | (Inr respuesta, w2) \<Rightarrow> (index0 respuesta, w2)))"

text \<open>\<^verbatim>\<open>obtenerComentarios\<close>, lines 94--111.\<close>

definition obtenerComentarios ::
  "world \<Rightarrow> config \<Rightarrow> string \<Rightarrow> (error + find_result) \<times> world"
where
  "obtenerComentarios w conf movieId =
     (let w1 = connect_or_log w conf ''Error conectandose a la base de datos: '' in
      case ObjectId_of_string movieId of
        Inl e \<Rightarrow> (Inl e, w1)
      | Inr oid \<Rightarrow>
          (let query = [(''movie_id'', Eq (BOid oid))];
               w2 = w1\<lparr>console := console w1 @ [[LStr ''La sentencia es: '', LQuery query]]\<rparr>;
               projection =
                 [(''name'', True), (''email'', True), (''text'', True), (''date'', True)]
           in Find w2 ''comments'' query (Some projection) (SortObj []) (LimBool False) 0))"

text \<open>\<^verbatim>\<open>new ObjectId()\<close>: the next identifier of the generator.\<close>

definition new_ObjectId :: "world \<Rightarrow> objectid \<times> world" where
  "new_ObjectId w = (oid_source w (oid_made w), w\<lparr>oid_made := Suc (oid_made w)\<rparr>)"

text \<open>
  \<^verbatim>\<open>insertarComentarios\<close>, lines 118--135.  The fields of \<^verbatim>\<open>comentario\<close> are evaluated in
  order: the fresh identifier, then \<^verbatim>\<open>new ObjectId(movieId)\<close>, which may throw, then the
  date.  The promise of \<^verbatim>\<open>InsertOne\<close> is returned, so the caller awaits the insertion.
\<close>

definition insertarComentarios ::
  "world \<Rightarrow> config \<Rightarrow> string \<Rightarrow> string \<Rightarrow> string \<Rightarrow> string \<Rightarrow> (error + insert_result) \<times> world"
where
  "insertarComentarios w conf nameLlega emailLlega movieId textLlega =
     (let w0 = w\<lparr>console := console w @ [[LStr ''Entra por insertarComentarios'']]\<rparr>;
          w1 = connect_or_log w0 conf
                 (''Error de conexi'' @ [CHR 0xC3, CHR 0xB3] @ ''n a la base de datos: '');
          fresh = fst (new_ObjectId w1);
          w2 = snd (new_ObjectId w1)
      in case ObjectId_of_string movieId of
           Inl e \<Rightarrow> (Inl e, w2)
         | Inr oid \<Rightarrow>
             (let comentario =
                    [(''_id'', BOid fresh), (''name'', BStr nameLlega),
                     (''email'', BStr emailLlega), (''movie_id'', BOid oid),
                     (''text'', BStr textLlega), (''date'', BDate (clock w2))]
              in InsertOne w2 ''comments'' comentario (Some [])))"

subsection \<open>The four routes\<close>

text \<open>
  A route resolves to the body it sends; \<open>Inl\<close> is a rejection that no handler catches.
  A query or body parameter that the request does not carry is \<open>None\<close>.
\<close>

definition getMoviesByTitle ::
  "world \<Rightarrow> config \<Rightarrow> string option \<Rightarrow> (error + body) \<times> world"
where
  "getMoviesByTitle w conf title =
     (let failed = (Inr (BodyText ''Error''),
                    w\<lparr>console := console w @ [[LBody (BodyText ''Error'')]]\<rparr>) in
      case title of
        None \<Rightarrow> failed
      | Some t \<Rightarrow>
          if t = [] then failed
          else
            (case obtenerPeliculasPorTitulo w conf t of
               (Inl e, w') \<Rightarrow> (Inl e, w')
             | (Inr respuesta, w') \<Rightarrow>
                 (Inr (BodyFind respuesta),
                  w'\<lparr>console := console w' @ [[LBody (BodyFind respuesta)]]\<rparr>)))"

definition details :: "world \<Rightarrow> config \<Rightarrow> string \<Rightarrow> (error + body) \<times> world" where
  "details w conf movieId =
     (case obtenerDetalle w conf movieId of
        (Inl e, w') \<Rightarrow> (Inl e, w')
      | (Inr respuesta, w') \<Rightarrow>
          (Inr (BodyFind respuesta),
           w'\<lparr>console := console w' @ [[LBody (BodyFind respuesta)]]\<rparr>))"

definition comments :: "world \<Rightarrow> config \<Rightarrow> string \<Rightarrow> (error + body) \<times> world" where
  "comments w conf movieId =
     (case obtenerComentarios w conf movieId of
        (Inl e, w') \<Rightarrow> (Inl e, w')
      | (Inr respuesta, w') \<Rightarrow>
          (Inr (BodyFind respuesta),
           w'\<lparr>console := console w' @
                 [[LStr ''Los comentarios son (server)'', LBody (BodyFind respuesta)]]\<rparr>))"

definition addComment ::
  "world \<Rightarrow> config \<Rightarrow> string \<Rightarrow> string \<Rightarrow> string \<Rightarrow> string \<Rightarrow> (error + body) \<times> world"
where
  "addComment w conf name email movieId text' =
     (case insertarComentarios w conf name email movieId text' of
        (Inl e, w') \<Rightarrow> (Inl e, w')
      | (Inr respuesta, w') \<Rightarrow> (Inr (BodyInsert respuesta), w'))"

section \<open>Every operation of the program\<close>

text \<open>
  The exported functions of \<^verbatim>\<open>mongo.ts\<close> and the four routes, as one type of operations;
  \<open>run\<close> gives the world an operation leaves behind, whether it resolves or rejects.
\<close>

datatype operation =
    OpConnect config
  | OpClose
  | OpCollection string
  | OpFind string query "projection option" sort_arg limit_arg int
  | OpDistinct string string query "document option"
  | OpFindCursor string query "projection option" sort_arg limit_arg int
  | OpCollectionExist string
  | OpInsertOne string document "document option"
  | OpInsertMany string "document list" "document option"
  | OpDeleteOne string query "document option"
  | OpDeleteMany string query "document option"
  | OpUpdateOne string query document "document option"
  | OpUpdateMany string query document "document option"
  | OpCount string query limit_arg
  | OpAggregate string "document list" document
  | OpAggregate_cursor string "document list" document
  | OpCreateIndex string document
  | OpStats string
  | OpGetMoviesByTitle config "string option"
  | OpDetails config string
  | OpComments config string
  | OpAddComment config string string string string

fun run :: "world \<Rightarrow> operation \<Rightarrow> world" where
  "run w (OpConnect conf) = snd (Connect w conf)"
| "run w OpClose = snd (Close w)"
| "run w (OpCollection c) = w"
| "run w (OpFind c q p s l k) = snd (Find w c q p s l k)"
| "run w (OpDistinct c f q opts) = snd (Distinct w c f q opts)"
| "run w (OpFindCursor c q p s l k) = w"
| "run w (OpCollectionExist c) = snd (CollectionExist w c)"
| "run w (OpInsertOne c d opts) = snd (InsertOne w c d opts)"
| "run w (OpInsertMany c ds opts) = snd (InsertMany w c ds opts)"
| "run w (OpDeleteOne c q opts) = snd (DeleteOne w c q opts)"
| "run w (OpDeleteMany c q opts) = snd (DeleteMany w c q opts)"
| "run w (OpUpdateOne c q u opts) = snd (UpdateOne w c q u opts)"
| "run w (OpUpdateMany c q u opts) = snd (UpdateMany w c q u opts)"
| "run w (OpCount c q l) = snd (Count w c q l)"
| "run w (OpAggregate c q opts) = snd (Aggregate w c q opts)"
| "run w (OpAggregate_cursor c q opts) = snd (Aggregate_cursor w c q opts)"
| "run w (OpCreateIndex c d) = snd (CreateIndex w c d)"
| "run w (OpStats c) = snd (Stats w c)"
| "run w (OpGetMoviesByTitle conf t) = snd (getMoviesByTitle w conf t)"
| "run w (OpDetails conf m) = snd (details w conf m)"
| "run w (OpComments conf m) = snd (comments w conf m)"
| "run w (OpAddComment conf n e m t) = snd (addComment w conf n e m t)"

fun run_all :: "world \<Rightarrow> operation list \<Rightarrow> world" where
  "run_all w [] = w"
| "run_all w (x # xs) = run_all (run w x) xs"

section \<open>Notions used to state the properties\<close>

text \<open>A document reduced to the fields with the given names.\<close>

definition only_fields :: "string list \<Rightarrow> document \<Rightarrow> document" where
  "only_fields names d = filter (\<lambda>(k, v). k \<in> set names) d"

text \<open>The field \<open>f\<close> of a document is present and equal to \<open>v\<close>.\<close>

definition field_is :: "string \<Rightarrow> bson \<Rightarrow> document \<Rightarrow> bool" where
  "field_is f v d = (map_of d f = Some v)"

text \<open>
  The \<^verbatim>\<open>title\<close> of a document is a string that contains \<open>t\<close> as a contiguous substring,
  letter case ignored.
\<close>

definition title_contains :: "string \<Rightarrow> document \<Rightarrow> bool" where
  "title_contains t d =
     (case map_of d ''title'' of
        Some (BStr s) \<Rightarrow> sublist (map lower t) (map lower s)
      | _ \<Rightarrow> False)"

text \<open>
  The order in which the store returns documents for a \<open>sort\<close> argument: its own order
  for a non-empty specification, the natural one otherwise.
\<close>

definition in_order :: "world \<Rightarrow> sort_arg \<Rightarrow> document list \<Rightarrow> document list" where
  "in_order w s ds =
     (if truthy_sort s \<and> sort_keys_of s \<noteq> [] then ordering w (sort_keys_of s) ds else ds)"


text \<open>The world after \<^verbatim>\<open>Connect\<close> followed by \<^verbatim>\<open>Close\<close>.\<close>

definition connect_then_close :: "world \<Rightarrow> config \<Rightarrow> world" where
  "connect_then_close w conf = snd (Close (snd (Connect w conf)))"

section \<open>Example worlds\<close>

text \<open>
  A configuration, a configuration whose database name has a dot, and a store holding two
  movies and one comment.  In \<open>unreachable\<close> nothing is connected and every connection
  attempt fails; in \<open>reachable\<close> every attempt is answered with a client; \<open>connected\<close> is
  \<open>reachable\<close> after a successful \<^verbatim>\<open>Connect\<close>.
\<close>

definition cfg :: config where
  "cfg = \<lparr>uri = ''mongodb://127.0.0.1:27017'', db = ''sample_mflix'', options = []\<rparr>"

definition dotted :: config where
  "dotted = \<lparr>uri = ''mongodb://127.0.0.1:27017'', db = ''sample.mflix'', options = []\<rparr>"

definition sample :: "(string \<times> document list) list" where
  "sample =
     [(''movies'',
       [[(''_id'', BOid ''movie0000001''), (''title'', BStr ''The Great Train Robbery''),
         (''year'', BNum 1903), (''directors'', BArr [BStr ''Edwin S. Porter'']),
         (''plot'', BStr ''A group of bandits stage a brazen train hold-up.''),
         (''runtime'', BNum 11)],
        [(''_id'', BOid ''movie0000002''), (''title'', BStr ''Blacksmith Scene''),
         (''year'', BNum 1893), (''directors'', BArr [BStr ''William K.L. Dickson'']),
         (''plot'', BStr ''Three men hammer on an anvil.''), (''runtime'', BNum 1)]]),
      (''comments'',
       [[(''_id'', BOid ''comment00001''), (''name'', BStr ''Ana''),
         (''email'', BStr ''ana@x.com''), (''movie_id'', BOid ''movie0000001''),
         (''text'', BStr ''great film''), (''date'', BDate 1000)]])]"

definition unreachable :: world where
  "unreachable =
     \<lparr>DB = None, clientDB = None, net = (\<lambda>n. CbErr ''ECONNREFUSED''), dialled = 0,
      closed = [], oid_source = (\<lambda>n. ''generated00'' @ [char_of (48 + n)]), oid_made = 0,
      clock = 2000, collections = sample, ordering = (\<lambda>ks ds. ds),
      pcre = (\<lambda>p opts. None), sent = [], console = []\<rparr>"

definition reachable :: world where
  "reachable = unreachable\<lparr>net := (\<lambda>n. CbClient)\<rparr>"

definition connected :: world where
  "connected =
     reachable\<lparr>DB := Some (Db 0 ''sample_mflix''), clientDB := Some 0, dialled := 1\<rparr>"

section \<open>Connecting\<close>

lemma Connect_DB: "DB w = Some d \<Longrightarrow> Connect w conf = (Inr None, w)"
  by (simp add: Connect_def)

lemma Connect_resolves_DB: "fst (Connect w conf) = Inr r \<Longrightarrow> DB (snd (Connect w conf)) \<noteq> None"
  by (auto simp: Connect_def Let_def split: option.splits connect_reply.splits sum.splits)



lemma Connect_dialled:
  "dialled (snd (Connect w conf)) = (if DB w = None then Suc (dialled w) else dialled w)"
  by (auto simp: Connect_def Let_def split: option.splits connect_reply.splits sum.splits)

text \<open>
  C8, as stated, fails.  With a configuration whose database name the driver refuses,
  each of two consecutive calls of \<^verbatim>\<open>Connect\<close> has the driver establish a connection:
  \<open>clientDB\<close> is assigned, \<^verbatim>\<open>client.db\<close> throws, \<open>DB\<close> stays undefined, and the second call
  dials again.
\<close>

theorem Connect_twice_counterexample:
  "established reachable = 0 \<and>
   fst (Connect reachable dotted) = Inl (DriverError ''invalid database name'') \<and>
   established (snd (Connect (snd (Connect reachable dotted)) dotted)) = 2"
  by (simp add: established_def reachable_def unreachable_def dotted_def Connect_def
        client_db_def validateDatabaseName_def Let_def upt_rec)

text \<open>
  C8, amended: when the first of two consecutive calls of \<^verbatim>\<open>Connect\<close> resolves, the second
  returns at once and leaves the world as it is, whatever configuration it is given; the
  two calls together make at most one connection attempt and establish at most one
  connection.
\<close>

theorem Connect_twice:
  "fst (Connect w conf) = Inr r \<Longrightarrow>
     Connect (snd (Connect w conf)) conf' = (Inr None, snd (Connect w conf)) \<and>
     dialled (snd (Connect (snd (Connect w conf)) conf')) \<le> Suc (dialled w) \<and>
     established (snd (Connect (snd (Connect w conf)) conf')) \<le> Suc (established w)"
proof -
  assume ok: "fst (Connect w conf) = Inr r"
  then obtain d where d: "DB (snd (Connect w conf)) = Some d"
    using Connect_resolves_DB by blast
  have second: "Connect (snd (Connect w conf)) conf' = (Inr None, snd (Connect w conf))"
    using d by (rule Connect_DB)
  have dial: "dialled (snd (Connect w conf)) \<le> Suc (dialled w)"
    by (simp add: Connect_dialled)
  have "established (snd (Connect w conf)) \<le> Suc (established w)"
    by (auto simp: established_def Connect_def Let_def
          split: option.splits connect_reply.splits sum.splits)
  with second dial show ?thesis by simp
qed

theorem Connect_twice_witness:
  "fst (Connect reachable cfg) = Inr (Some True) \<and>
   Connect (snd (Connect reachable cfg)) dotted = (Inr None, snd (Connect reachable cfg)) \<and>
   dialled (snd (Connect (snd (Connect reachable cfg)) dotted)) \<le> Suc (dialled reachable) \<and>
   established (snd (Connect (snd (Connect reachable cfg)) dotted))
     \<le> Suc (established reachable)"
proof -
  have ok: "fst (Connect reachable cfg) = Inr (Some True)"
    by (simp add: reachable_def unreachable_def cfg_def Connect_def
          client_db_def validateDatabaseName_def Let_def)
  from Connect_twice [OF ok, of dotted] ok show ?thesis by blast
qed

section \<open>The route of the title search\<close>

text \<open>
  C7: without a \<^verbatim>\<open>title\<close> parameter the route answers the string \<^verbatim>\<open>Error\<close> as a normal
  response; it logs that body and does nothing else: no connection attempt, and nothing
  is sent to the store.
\<close>

theorem getMoviesByTitle_without_title:
  "getMoviesByTitle w conf None =
     (Inr (BodyText ''Error''), w\<lparr>console := console w @ [[LBody (BodyText ''Error'')]]\<rparr>)
   \<and> sent (snd (getMoviesByTitle w conf None)) = sent w
   \<and> dialled (snd (getMoviesByTitle w conf None)) = dialled w"
  by (simp add: getMoviesByTitle_def)

section \<open>What the operations leave alone\<close>

text \<open>
  No function but \<^verbatim>\<open>Connect\<close> assigns the module variables, and \<^verbatim>\<open>Connect\<close> only when
  \<open>DB\<close> is undefined; only \<^verbatim>\<open>Close\<close> closes a client; only \<^verbatim>\<open>Connect\<close> dials.
\<close>

lemma forward_frame:
  "DB (snd (forward w d c)) = DB w \<and> clientDB (snd (forward w d c)) = clientDB w
   \<and> closed (snd (forward w d c)) = closed w \<and> dialled (snd (forward w d c)) = dialled w
   \<and> net (snd (forward w d c)) = net w"
  by (simp add: forward_def)

lemma via_collection_frame:
  "DB (snd (via_collection w n c)) = DB w \<and> clientDB (snd (via_collection w n c)) = clientDB w
   \<and> closed (snd (via_collection w n c)) = closed w
   \<and> dialled (snd (via_collection w n c)) = dialled w
   \<and> net (snd (via_collection w n c)) = net w"
  by (simp add: via_collection_def forward_frame split: sum.splits)

lemma toArray_frame:
  "DB (snd (toArray w c)) = DB w \<and> clientDB (snd (toArray w c)) = clientDB w
   \<and> closed (snd (toArray w c)) = closed w \<and> dialled (snd (toArray w c)) = dialled w
   \<and> net (snd (toArray w c)) = net w"
  by (simp add: toArray_def)

lemma Find_frame:
  "DB (snd (Find w n q p s l k)) = DB w \<and> clientDB (snd (Find w n q p s l k)) = clientDB w
   \<and> closed (snd (Find w n q p s l k)) = closed w
   \<and> dialled (snd (Find w n q p s l k)) = dialled w
   \<and> net (snd (Find w n q p s l k)) = net w"
proof (cases "FindCursor w n q (Some (or_empty p)) s l k")
  case (Inl e)
  then show ?thesis by (simp add: Find_def)
next
  case (Inr cur)
  obtain r w' where t: "toArray w cur = (r, w')" by (cases "toArray w cur")
  with toArray_frame [of w cur] have "DB w' = DB w \<and> clientDB w' = clientDB w
     \<and> closed w' = closed w \<and> dialled w' = dialled w \<and> net w' = net w" by simp
  with Inr t show ?thesis by (cases r) (simp_all add: Find_def)
qed

lemma InsertOne_frame:
  "DB (snd (InsertOne w n d opts)) = DB w \<and> clientDB (snd (InsertOne w n d opts)) = clientDB w
   \<and> closed (snd (InsertOne w n d opts)) = closed w
   \<and> dialled (snd (InsertOne w n d opts)) = dialled w
   \<and> net (snd (InsertOne w n d opts)) = net w"
  by (simp add: InsertOne_def collection_insertOne_def Let_def split: sum.splits option.splits)

lemma CollectionExist_frame:
  "DB (snd (CollectionExist w n)) = DB w \<and> clientDB (snd (CollectionExist w n)) = clientDB w
   \<and> closed (snd (CollectionExist w n)) = closed w
   \<and> dialled (snd (CollectionExist w n)) = dialled w
   \<and> net (snd (CollectionExist w n)) = net w"
  by (simp add: CollectionExist_def split: option.splits)

lemma connect_or_log_DB: "DB w = Some d \<Longrightarrow> connect_or_log w conf msg = w"
  by (simp add: connect_or_log_def Connect_DB)

lemma obtenerPeliculasPorTitulo_frame:
  "DB w = Some d \<Longrightarrow>
     DB (snd (obtenerPeliculasPorTitulo w conf t)) = DB w
     \<and> closed (snd (obtenerPeliculasPorTitulo w conf t)) = closed w
     \<and> dialled (snd (obtenerPeliculasPorTitulo w conf t)) = dialled w"
  by (simp add: obtenerPeliculasPorTitulo_def connect_or_log_DB Find_frame)

lemma obtenerDetalle_frame:
  "DB w = Some d \<Longrightarrow>
     DB (snd (obtenerDetalle w conf m)) = DB w
     \<and> closed (snd (obtenerDetalle w conf m)) = closed w
     \<and> dialled (snd (obtenerDetalle w conf m)) = dialled w"
proof -
  assume d: "DB w = Some d"
  show ?thesis
  proof (cases "ObjectId_of_string m")
    case (Inl e)
    with d show ?thesis by (simp add: obtenerDetalle_def connect_or_log_DB)
  next
    case (Inr oid)
    let ?f = "Find w ''movies'' [(''_id'', Eq (BOid oid))]
        (Some [(''title'', True), (''year'', True), (''directors'', True), (''plot'', True)])
        (SortObj []) (LimBool False) 0"
    obtain r w' where f: "?f = (r, w')" by (cases ?f)
    with Find_frame [of w "''movies''" "[(''_id'', Eq (BOid oid))]"
        "Some [(''title'', True), (''year'', True), (''directors'', True), (''plot'', True)]"
        "SortObj []" "LimBool False" 0]
    have "DB w' = DB w \<and> closed w' = closed w \<and> dialled w' = dialled w" by simp
    with d Inr f show ?thesis
      by (cases r) (simp_all add: obtenerDetalle_def connect_or_log_DB)
  qed
qed

lemma obtenerComentarios_frame:
  "DB w = Some d \<Longrightarrow>
     DB (snd (obtenerComentarios w conf m)) = DB w
     \<and> closed (snd (obtenerComentarios w conf m)) = closed w
     \<and> dialled (snd (obtenerComentarios w conf m)) = dialled w"
  by (cases "ObjectId_of_string m")
     (simp_all add: obtenerComentarios_def connect_or_log_DB Find_frame Let_def)

lemma insertarComentarios_frame:
  "DB w = Some d \<Longrightarrow>
     DB (snd (insertarComentarios w conf n e m t)) = DB w
     \<and> closed (snd (insertarComentarios w conf n e m t)) = closed w
     \<and> dialled (snd (insertarComentarios w conf n e m t)) = dialled w"
  by (cases "ObjectId_of_string m")
     (simp_all add: insertarComentarios_def connect_or_log_DB InsertOne_frame new_ObjectId_def Let_def)

lemma run_frame:
  "DB w = Some d \<Longrightarrow>
     DB (run w x) = Some d \<and> set (closed w) \<subseteq> set (closed (run w x))
     \<and> dialled (run w x) = dialled w"
proof (cases x)
  case (OpConnect conf)
  assume "DB w = Some d"
  with OpConnect show ?thesis by (simp add: Connect_DB)
next
  case OpClose
  assume "DB w = Some d"
  with OpClose show ?thesis by (auto simp: Close_def split: option.splits)
next
  case (OpGetMoviesByTitle conf t)
  assume d: "DB w = Some d"
  show ?thesis
  proof (cases "t = None \<or> t = Some []")
    case True
    with d OpGetMoviesByTitle show ?thesis by (auto simp: getMoviesByTitle_def)
  next
    case False
    then obtain s where s: "t = Some s" "s \<noteq> []" by auto
    obtain r w' where f: "obtenerPeliculasPorTitulo w conf s = (r, w')"
      by (cases "obtenerPeliculasPorTitulo w conf s")
    with obtenerPeliculasPorTitulo_frame [OF d, of conf s]
    have "DB w' = DB w \<and> closed w' = closed w \<and> dialled w' = dialled w" by simp
    with d OpGetMoviesByTitle s f show ?thesis
      by (cases r) (simp_all add: getMoviesByTitle_def)
  qed
next
  case (OpDetails conf m)
  assume d: "DB w = Some d"
  obtain r w' where f: "obtenerDetalle w conf m = (r, w')" by (cases "obtenerDetalle w conf m")
  with obtenerDetalle_frame [OF d, of conf m]
  have "DB w' = DB w \<and> closed w' = closed w \<and> dialled w' = dialled w" by simp
  with d OpDetails f show ?thesis by (cases r) (simp_all add: details_def)
next
  case (OpComments conf m)
  assume d: "DB w = Some d"
  obtain r w' where f: "obtenerComentarios w conf m = (r, w')"
    by (cases "obtenerComentarios w conf m")
  with obtenerComentarios_frame [OF d, of conf m]
  have "DB w' = DB w \<and> closed w' = closed w \<and> dialled w' = dialled w" by simp
  with d OpComments f show ?thesis by (cases r) (simp_all add: comments_def)
next
  case (OpAddComment conf n e m t)
  assume d: "DB w = Some d"
  obtain r w' where f: "insertarComentarios w conf n e m t = (r, w')"
    by (cases "insertarComentarios w conf n e m t")
  with insertarComentarios_frame [OF d, of conf n e m t]
  have "DB w' = DB w \<and> closed w' = closed w \<and> dialled w' = dialled w" by simp
  with d OpAddComment f show ?thesis by (cases r) (simp_all add: addComment_def)
qed (simp_all add: Find_frame InsertOne_frame CollectionExist_frame via_collection_frame
       Distinct_def InsertMany_def DeleteOne_def DeleteMany_def UpdateOne_def UpdateMany_def
       Count_def Aggregate_def Aggregate_cursor_def CreateIndex_def Stats_def Collection_def
       split: option.splits)

lemma run_all_frame:
  "DB w = Some d \<Longrightarrow>
     DB (run_all w xs) = Some d \<and> set (closed w) \<subseteq> set (closed (run_all w xs))
     \<and> dialled (run_all w xs) = dialled w"
proof (induction xs arbitrary: w)
  case Nil
  then show ?case by simp
next
  case (Cons x xs)
  from run_frame [OF Cons.prems, of x]
  have a: "DB (run w x) = Some d" and b: "set (closed w) \<subseteq> set (closed (run w x))"
    and c: "dialled (run w x) = dialled w" by simp_all
  from Cons.IH [OF a] b c show ?case by auto
qed

text \<open>
  C10: once \<^verbatim>\<open>Connect\<close> has resolved, \<open>DB\<close> is set and no sequence of operations of the
  program changes it.  In particular, when the connection was established by that call,
  \<^verbatim>\<open>Close\<close> closes the client and leaves \<open>DB\<close> in place: after any further operations
  \<open>DB\<close> still holds the handle of the closed client, \<^verbatim>\<open>Connect\<close> returns at once with the
  world unchanged, and no further connection attempt has been made.
\<close>

theorem DB_never_cleared:
  "fst (Connect w conf) = Inr r \<Longrightarrow>
     DB (snd (Connect w conf)) \<noteq> None \<and>
     DB (run_all (snd (Connect w conf)) ops) = DB (snd (Connect w conf)) \<and>
     (DB w = None \<longrightarrow>
        fst (Close (snd (Connect w conf))) = Inr () \<and>
        DB (connect_then_close w conf) = Some (Db (dialled w) (db conf)) \<and>
        DB (run_all (connect_then_close w conf) ops) = Some (Db (dialled w) (db conf)) \<and>
        is_closed (run_all (connect_then_close w conf) ops) (Db (dialled w) (db conf)) \<and>
        Connect (run_all (connect_then_close w conf) ops) conf' =
          (Inr None, run_all (connect_then_close w conf) ops) \<and>
        dialled (run_all (connect_then_close w conf) ops) = Suc (dialled w))"
proof -
  assume ok: "fst (Connect w conf) = Inr r"
  then obtain d where d: "DB (snd (Connect w conf)) = Some d"
    using Connect_resolves_DB by blast
  from run_all_frame [OF d, of ops]
  have kept: "DB (run_all (snd (Connect w conf)) ops) = DB (snd (Connect w conf))"
    using d by simp
  have fresh: "DB w = None \<longrightarrow>
        fst (Close (snd (Connect w conf))) = Inr () \<and>
        DB (connect_then_close w conf) = Some (Db (dialled w) (db conf)) \<and>
        DB (run_all (connect_then_close w conf) ops) = Some (Db (dialled w) (db conf)) \<and>
        is_closed (run_all (connect_then_close w conf) ops) (Db (dialled w) (db conf)) \<and>
        Connect (run_all (connect_then_close w conf) ops) conf' =
          (Inr None, run_all (connect_then_close w conf) ops) \<and>
        dialled (run_all (connect_then_close w conf) ops) = Suc (dialled w)"
  proof
    assume none: "DB w = None"
    let ?h = "Db (dialled w) (db conf)"
    let ?w2 = "connect_then_close w conf"
    from ok none have c: "fst (Close (snd (Connect w conf))) = Inr ()"
      and h: "DB ?w2 = Some ?h" and cl: "dialled w \<in> set (closed ?w2)"
      and di: "dialled ?w2 = Suc (dialled w)"
      by (auto simp: connect_then_close_def Connect_def Close_def client_db_def Let_def
            split: connect_reply.splits if_splits)
    from run_all_frame [OF h, of ops]
    have a: "DB (run_all ?w2 ops) = Some ?h"
      and b: "set (closed ?w2) \<subseteq> set (closed (run_all ?w2 ops))"
      and e: "dialled (run_all ?w2 ops) = dialled ?w2" by simp_all
    from cl b have "is_closed (run_all ?w2 ops) ?h" by (auto simp: is_closed_def)
    with c h a e di Connect_DB [OF a, of conf']
    show "fst (Close (snd (Connect w conf))) = Inr () \<and>
        DB ?w2 = Some ?h \<and> DB (run_all ?w2 ops) = Some ?h \<and>
        is_closed (run_all ?w2 ops) ?h \<and>
        Connect (run_all ?w2 ops) conf' = (Inr None, run_all ?w2 ops) \<and>
        dialled (run_all ?w2 ops) = Suc (dialled w)" by simp
  qed
  from d kept fresh show ?thesis by simp
qed

theorem DB_never_cleared_witness:
  "fst (Connect reachable cfg) = Inr (Some True) \<and> DB reachable = None \<and>
   DB (snd (Connect reachable cfg)) \<noteq> None \<and>
   DB (run_all (snd (Connect reachable cfg)) [OpClose, OpStats ''movies'', OpConnect dotted]) =
     DB (snd (Connect reachable cfg)) \<and>
   fst (Close (snd (Connect reachable cfg))) = Inr () \<and>
   DB (run_all (connect_then_close reachable cfg) [OpClose, OpStats ''movies'', OpConnect dotted])
     = Some (Db 0 ''sample_mflix'') \<and>
   is_closed (run_all (connect_then_close reachable cfg)
       [OpClose, OpStats ''movies'', OpConnect dotted]) (Db 0 ''sample_mflix'') \<and>
   Connect (run_all (connect_then_close reachable cfg)
       [OpClose, OpStats ''movies'', OpConnect dotted]) cfg =
     (Inr None, run_all (connect_then_close reachable cfg)
       [OpClose, OpStats ''movies'', OpConnect dotted]) \<and>
   dialled (run_all (connect_then_close reachable cfg)
       [OpClose, OpStats ''movies'', OpConnect dotted]) = 1"
proof -
  have ok: "fst (Connect reachable cfg) = Inr (Some True)"
    by (simp add: reachable_def unreachable_def cfg_def Connect_def
          client_db_def validateDatabaseName_def Let_def)
  have none: "DB reachable = None" and zero: "dialled reachable = 0"
    and name: "db cfg = ''sample_mflix''"
    by (simp_all add: reachable_def unreachable_def cfg_def)
  from DB_never_cleared [OF ok, of "[OpClose, OpStats ''movies'', OpConnect dotted]" cfg]
    ok none zero name
  show ?thesis by simp
qed

section \<open>Operations without a connection\<close>

text \<open>
  C6 at \<^verbatim>\<open>CollectionExist\<close>: with no connection it rejects with the \<open>TypeError\<close> of reading
  \<^verbatim>\<open>listCollections\<close> from the undefined \<open>DB\<close>, not with \<^verbatim>\<open>"Not connected"\<close>.
\<close>

theorem CollectionExist_without_connection:
  "CollectionExist unreachable ''movies'' = (Inl TypeError, unreachable)"
  by (simp add: CollectionExist_def unreachable_def)


section \<open>A failed connection attempt inside a query function\<close>






section \<open>Finding documents\<close>

text \<open>
  With a usable connection (\<open>DB\<close> set, its client not closed) \<^verbatim>\<open>Find\<close> sends one find
  command, configured from its arguments, and post-processes the array.
\<close>

lemma Find_connected:
  assumes "DB w = Some d" and "\<not> is_closed w d"
  shows "fst (Find w n q p s l k) =
     (case store_find w n q (or_empty p) (if truthy_sort s then sort_keys_of s else [])
             (if truthy_limit l then limit_number l else 0) k of
        Inl e \<Rightarrow> Inl e
      | Inr result \<Rightarrow>
          Inr (if l = LimBool True
               then (case result of [] \<Rightarrow> Undefined | x # xs \<Rightarrow> Doc x)
               else Docs result))"
  using assms
  by (simp add: Find_def FindCursor_def Collection_def collection_find_def toArray_def
        or_empty_def Let_def split: sum.splits option.splits)

lemma Find_unlimited:
  assumes "DB w = Some d" and "\<not> is_closed w d"
    and "compile_query w q = Some holds" and "project p = Some proj"
  shows "fst (Find w n q (Some p) (SortObj []) (LimBool False) 0) =
     Inr (Docs (map proj (filter holds (docs_of w n))))"
  using assms(3,4)
  by (simp add: Find_connected [OF assms(1,2)] store_find_def or_empty_def truthy_sort_def
        truthy_limit_def sort_keys_of_def)

lemma first_of_take:
  "(case map f (take (Suc 0) xs) of [] \<Rightarrow> a | y # ys \<Rightarrow> g y) =
   (case map f xs of [] \<Rightarrow> a | y # ys \<Rightarrow> g y)"
  by (cases xs) simp_all

lemma connected_usable:
  "DB connected = Some (Db 0 ''sample_mflix'') \<and> \<not> is_closed connected (Db 0 ''sample_mflix'')"
  by (simp add: connected_def reachable_def unreachable_def is_closed_def)

lemma movies_connected:
  "docs_of connected ''movies'' =
     [[(''_id'', BOid ''movie0000001''), (''title'', BStr ''The Great Train Robbery''),
       (''year'', BNum 1903), (''directors'', BArr [BStr ''Edwin S. Porter'']),
       (''plot'', BStr ''A group of bandits stage a brazen train hold-up.''),
       (''runtime'', BNum 11)],
      [(''_id'', BOid ''movie0000002''), (''title'', BStr ''Blacksmith Scene''),
       (''year'', BNum 1893), (''directors'', BArr [BStr ''William K.L. Dickson'']),
       (''plot'', BStr ''Three men hammer on an anvil.''), (''runtime'', BNum 1)]]"
  by (simp add: docs_of_def connected_def reachable_def unreachable_def sample_def)

lemma comments_connected:
  "docs_of connected ''comments'' =
     [[(''_id'', BOid ''comment00001''), (''name'', BStr ''Ana''),
       (''email'', BStr ''ana@x.com''), (''movie_id'', BOid ''movie0000001''),
       (''text'', BStr ''great film''), (''date'', BDate 1000)]]"
  by (simp add: docs_of_def connected_def reachable_def unreachable_def sample_def)

lemma movie0000001:
  "ObjectId_of_string ''6d6f76696530303030303031'' = Inr ''movie0000001'' \<and>
   ObjectId_of_string ''movie0000001'' = Inr ''movie0000001''"
  by code_simp

text \<open>
  C5, as stated, fails at the numeric limit \<^verbatim>\<open>0\<close>: the guard \<^verbatim>\<open>if (limit)\<close> skips
  \<^verbatim>\<open>cursor.limit\<close>, so \<^verbatim>\<open>Find\<close> returns every matching document instead of none.
\<close>

theorem Find_limit_zero_counterexample:
  "fst (Find connected ''movies'' [] None (SortObj []) (LimNum 0) 0) =
     Inr (Docs (docs_of connected ''movies'')) \<and>
   length (docs_of connected ''movies'') = 2"
  by (simp add: Find_connected [OF conjunct1 [OF connected_usable] conjunct2 [OF connected_usable]]
        store_find_def project_def or_empty_def truthy_limit_def truthy_sort_def
        sort_keys_of_def movies_connected)

text \<open>
  C5, amended: with a usable connection, a filter and a projection that the store accepts
  and a skip that is not negative, let \<open>found\<close> be the matching documents in the order of
  the sort argument, without the first \<open>skip\<close>, each projected.  \<^verbatim>\<open>Find\<close> resolves to the
  first document of \<open>found\<close>, or to \<^verbatim>\<open>undefined\<close> when \<open>found\<close> is empty, if \<open>limit\<close> is
  \<^verbatim>\<open>true\<close>; to all of \<open>found\<close> if \<open>limit\<close> is \<^verbatim>\<open>false\<close> or \<^verbatim>\<open>0\<close>; and to the first \<open>|limit|\<close>
  documents of \<open>found\<close> for any other number.
\<close>

theorem Find_limit_and_skip:
  assumes "DB w = Some d" and "\<not> is_closed w d"
    and "compile_query w q = Some holds" and "project (or_empty p) = Some proj"
    and "0 \<le> skip"
  shows "fst (Find w n q p srt limit skip) =
     Inr (let found = map proj (drop (nat skip) (in_order w srt (filter holds (docs_of w n))))
          in case limit of
               LimBool b \<Rightarrow>
                 if b then (case found of [] \<Rightarrow> Undefined | x # xs \<Rightarrow> Doc x) else Docs found
             | LimNum k \<Rightarrow> if k = 0 then Docs found else Docs (take (nat \<bar>k\<bar>) found))"
proof (cases limit)
  case (LimBool b)
  with assms show ?thesis
    by (simp add: Find_connected [OF assms(1,2)] store_find_def in_order_def Let_def
          truthy_limit_def limit_number_def loosely_true_def first_of_take drop_map)
next
  case (LimNum k)
  with assms show ?thesis
    by (simp add: Find_connected [OF assms(1,2)] store_find_def in_order_def Let_def
          truthy_limit_def limit_number_def loosely_true_def take_map drop_map)
qed

theorem Find_limit_and_skip_witness:
  "DB connected = Some (Db 0 ''sample_mflix'') \<and> \<not> is_closed connected (Db 0 ''sample_mflix'') \<and>
   compile_query connected [] = Some (\<lambda>d. True) \<and> project (or_empty None) = Some (\<lambda>d. d) \<and>
   (0::int) \<le> 1 \<and>
   fst (Find connected ''movies'' [] None (SortObj []) (LimBool True) 1) =
     Inr (Doc [(''_id'', BOid ''movie0000002''), (''title'', BStr ''Blacksmith Scene''),
       (''year'', BNum 1893), (''directors'', BArr [BStr ''William K.L. Dickson'']),
       (''plot'', BStr ''Three men hammer on an anvil.''), (''runtime'', BNum 1)])"
proof -
  have q: "compile_query connected [] = Some (\<lambda>d. True)" by simp
  have p: "project (or_empty None) = Some (\<lambda>d. d)" by (simp add: project_def or_empty_def)
  have k: "(0::int) \<le> 1" by simp
  from Find_limit_and_skip [OF conjunct1 [OF connected_usable] conjunct2 [OF connected_usable]
      q p k, of "''movies''" "SortObj []" "LimBool True"]
  have "fst (Find connected ''movies'' [] None (SortObj []) (LimBool True) 1) =
     Inr (Doc [(''_id'', BOid ''movie0000002''), (''title'', BStr ''Blacksmith Scene''),
       (''year'', BNum 1893), (''directors'', BArr [BStr ''William K.L. Dickson'']),
       (''plot'', BStr ''Three men hammer on an anvil.''), (''runtime'', BNum 1)])"
    by (simp add: in_order_def sort_keys_of_def movies_connected)
  with connected_usable q p k show ?thesis by blast
qed

section \<open>Searching movies by title\<close>

text \<open>
  On a pattern without the wildcard, the interpreted search is containment of the
  pattern in the subject, letter case ignored.
\<close>

lemma match_here_prefix:
  "CHR ''.'' \<notin> set p \<Longrightarrow> match_here True p s = prefix (map lower p) (map lower s)"
  by (induction True p s rule: match_here.induct) (auto simp: char_matches_def)

lemma search_sublist:
  "CHR ''.'' \<notin> set p \<Longrightarrow> search True p s = sublist (map lower p) (map lower s)"
proof (induction s)
  case Nil
  then show ?case by (cases p) simp_all
next
  case (Cons c cs)
  then show ?case
    using match_here_prefix [of p "c # cs"] by (simp add: sublist_Cons_right)
qed

lemma literal_interpreted:
  assumes "list_all (\<lambda>c. c \<notin> set metachars) t"
  shows "interpreted t ''$i'' \<and> CHR ''.'' \<notin> set t"
proof -
  have "CHR ''.'' \<in> set metachars" by (simp add: metachars_def)
  with assms have dot: "CHR ''.'' \<notin> set t" by (auto simp: list_all_iff)
  from assms have "list_all (\<lambda>c. c = CHR ''.'' \<or> c \<notin> set metachars) t"
    by (auto simp: list_all_iff)
  with dot show ?thesis by (simp add: interpreted_def)
qed

lemma title_regex_literal:
  assumes "list_all (\<lambda>c. c \<notin> set metachars) t"
  shows "\<exists>holds. compile_query w [(''title'', Regex t ''$i'')] = Some holds \<and>
           (\<forall>d. holds d = title_contains t d)"
proof -
  from literal_interpreted [OF assms]
  have i: "interpreted t ''$i''" and dot: "CHR ''.'' \<notin> set t" by simp_all
  have "\<forall>d. (case map_of d ''title'' of Some (BStr s) \<Rightarrow> search True t s | _ \<Rightarrow> False)
          = title_contains t d"
    by (auto simp: title_contains_def search_sublist [OF dot] split: option.splits bson.splits)
  with i show ?thesis by (simp add: compile_regex_def)
qed

lemma project_id_title:
  "project [(''title'', True), (''_id'', True)] = Some (only_fields [''_id'', ''title''])"
proof -
  have "(\<lambda>d. filter (\<lambda>(k, v). k = ''_id'' \<or> k = ''title'') d)
        = only_fields [''_id'', ''title'']"
    by (rule ext) (simp add: only_fields_def)
  then show ?thesis by (simp add: project_def)
qed

text \<open>
  The query function on a title without metacharacters: the documents of \<^verbatim>\<open>movies\<close> whose
  title contains it, each reduced to \<^verbatim>\<open>_id\<close> and \<^verbatim>\<open>title\<close>.
\<close>

lemma obtenerPeliculasPorTitulo_literal:
  assumes "DB w = Some d" and "\<not> is_closed w d"
    and "list_all (\<lambda>c. c \<notin> set metachars) t"
  shows "fst (obtenerPeliculasPorTitulo w conf t) =
     Inr (Docs (map (only_fields [''_id'', ''title''])
                  (filter (title_contains t) (docs_of w ''movies''))))"
proof -
  from title_regex_literal [OF assms(3), of w] obtain holds
    where q: "compile_query w [(''title'', Regex t ''$i'')] = Some holds"
      and h: "\<forall>d. holds d = title_contains t d" by blast
  from h have same: "filter holds (docs_of w ''movies'')
      = filter (title_contains t) (docs_of w ''movies'')" by (simp cong: filter_cong)
  from Find_unlimited [OF assms(1,2) q project_id_title, of "''movies''"] same
  have "fst (Find w ''movies'' [(''title'', Regex t ''$i'')]
          (Some [(''title'', True), (''_id'', True)]) (SortObj []) (LimBool False) 0) =
     Inr (Docs (map (only_fields [''_id'', ''title''])
                  (filter (title_contains t) (docs_of w ''movies''))))"
    by simp
  with assms(1) show ?thesis
    by (simp add: obtenerPeliculasPorTitulo_def connect_or_log_DB)
qed

text \<open>
  C1, as stated, fails: the title is passed to \<^verbatim>\<open>$regex\<close> as a pattern, not as a literal.
  For the title \<^verbatim>\<open>.\<close> the route, like the query function behind it, answers both movies
  of the example store, and neither title contains a full stop.
\<close>

theorem getMoviesByTitle_dot_counterexample:
  "fst (getMoviesByTitle connected cfg (Some ''.'')) =
     Inr (BodyFind (Docs
       [[(''_id'', BOid ''movie0000001''), (''title'', BStr ''The Great Train Robbery'')],
        [(''_id'', BOid ''movie0000002''), (''title'', BStr ''Blacksmith Scene'')]])) \<and>
   fst (obtenerPeliculasPorTitulo connected cfg ''.'') =
     Inr (Docs [[(''_id'', BOid ''movie0000001''), (''title'', BStr ''The Great Train Robbery'')],
                [(''_id'', BOid ''movie0000002''), (''title'', BStr ''Blacksmith Scene'')]]) \<and>
   filter (title_contains ''.'') (docs_of connected ''movies'') = []"
  by code_simp

text \<open>
  C1, amended: with a usable connection, for every title \<open>t\<close> without a regular expression
  metacharacter supplied as the \<^verbatim>\<open>title\<close> parameter, the route answers \<^verbatim>\<open>Error\<close> when \<open>t\<close>
  is empty, and otherwise exactly the documents of \<^verbatim>\<open>movies\<close> whose \<^verbatim>\<open>title\<close> is a string
  containing \<open>t\<close>, letter case ignored, in the store's order, each reduced to its \<^verbatim>\<open>_id\<close>
  and \<^verbatim>\<open>title\<close> fields.
\<close>

theorem getMoviesByTitle_literal:
  assumes "DB w = Some d" and "\<not> is_closed w d"
    and "list_all (\<lambda>c. c \<notin> set metachars) t"
  shows "fst (getMoviesByTitle w conf (Some t)) =
     (if t = [] then Inr (BodyText ''Error'')
      else Inr (BodyFind (Docs (map (only_fields [''_id'', ''title''])
                                  (filter (title_contains t) (docs_of w ''movies''))))))"
proof (cases "t = []")
  case True
  then show ?thesis by (simp add: getMoviesByTitle_def)
next
  case False
  obtain r w' where f: "obtenerPeliculasPorTitulo w conf t = (r, w')"
    by (cases "obtenerPeliculasPorTitulo w conf t")
  with obtenerPeliculasPorTitulo_literal [OF assms, of conf]
  have "r = Inr (Docs (map (only_fields [''_id'', ''title''])
                         (filter (title_contains t) (docs_of w ''movies''))))" by simp
  with False f show ?thesis by (simp add: getMoviesByTitle_def)
qed

theorem getMoviesByTitle_literal_witness:
  "DB connected = Some (Db 0 ''sample_mflix'') \<and> \<not> is_closed connected (Db 0 ''sample_mflix'') \<and>
   list_all (\<lambda>c. c \<notin> set metachars) ''TRAIN'' \<and>
   fst (getMoviesByTitle connected cfg (Some ''TRAIN'')) =
     Inr (BodyFind (Docs
       [[(''_id'', BOid ''movie0000001''), (''title'', BStr ''The Great Train Robbery'')]]))"
proof -
  have lit: "list_all (\<lambda>c. c \<notin> set metachars) ''TRAIN''" by (simp add: metachars_def)
  have "map (only_fields [''_id'', ''title''])
          (filter (title_contains ''TRAIN'') (docs_of connected ''movies'')) =
        [[(''_id'', BOid ''movie0000001''), (''title'', BStr ''The Great Train Robbery'')]]"
    by code_simp
  with getMoviesByTitle_literal
         [OF conjunct1 [OF connected_usable] conjunct2 [OF connected_usable] lit, of cfg]
  have "fst (getMoviesByTitle connected cfg (Some ''TRAIN'')) =
     Inr (BodyFind (Docs
       [[(''_id'', BOid ''movie0000001''), (''title'', BStr ''The Great Train Robbery'')]]))"
    by simp
  with connected_usable lit show ?thesis by blast
qed

section \<open>Details of a movie and comments of a movie\<close>

lemma equality_query:
  "compile_query w [(f, Eq (BOid oid))] = Some (\<lambda>d. field_is f (BOid oid) d \<and> True)"
  by (simp add: field_is_def)

lemma project_details:
  "project [(''title'', True), (''year'', True), (''directors'', True), (''plot'', True)] =
     Some (only_fields [''_id'', ''title'', ''year'', ''directors'', ''plot''])"
proof -
  have "(\<lambda>d. filter (\<lambda>(k, v). k = ''_id'' \<or> k = ''title'' \<or> k = ''year'' \<or> k = ''directors''
                \<or> k = ''plot'') d)
        = only_fields [''_id'', ''title'', ''year'', ''directors'', ''plot'']"
    by (rule ext) (simp add: only_fields_def)
  then show ?thesis by (simp add: project_def)
qed

lemma project_comments:
  "project [(''name'', True), (''email'', True), (''text'', True), (''date'', True)] =
     Some (only_fields [''_id'', ''name'', ''email'', ''text'', ''date''])"
proof -
  have "(\<lambda>d. filter (\<lambda>(k, v). k = ''_id'' \<or> k = ''name'' \<or> k = ''email'' \<or> k = ''text''
                \<or> k = ''date'') d)
        = only_fields [''_id'', ''name'', ''email'', ''text'', ''date'']"
    by (rule ext) (simp add: only_fields_def)
  then show ?thesis by (simp add: project_def)
qed

lemma Find_by_field:
  assumes "DB w = Some d" and "\<not> is_closed w d" and "project p = Some proj"
  shows "fst (Find w n [(f, Eq (BOid oid))] (Some p) (SortObj []) (LimBool False) 0) =
     Inr (Docs (map proj (filter (field_is f (BOid oid)) (docs_of w n))))"
  using Find_unlimited [OF assms(1,2) equality_query assms(3)] by simp

text \<open>
  C3, as stated, fails: the projection does not exclude \<^verbatim>\<open>_id\<close>, so the object returned
  for an existing movie has five fields, \<^verbatim>\<open>_id\<close> and the four projected ones.
\<close>

theorem obtenerDetalle_id_counterexample:
  "fst (obtenerDetalle connected cfg ''movie0000001'') =
     Inr (Doc [(''_id'', BOid ''movie0000001''), (''title'', BStr ''The Great Train Robbery''),
         (''year'', BNum 1903), (''directors'', BArr [BStr ''Edwin S. Porter'']),
         (''plot'', BStr ''A group of bandits stage a brazen train hold-up.'')]) \<and>
   fst (obtenerDetalle connected cfg ''movie0000001'') \<noteq>
     Inr (Doc (only_fields [''title'', ''year'', ''directors'', ''plot'']
                 (hd (docs_of connected ''movies''))))"
  by code_simp

text \<open>
  C3, amended: with a usable connection and a well-formed identifier, the details of a
  movie are the first document of \<^verbatim>\<open>movies\<close> with that \<^verbatim>\<open>_id\<close>, reduced to its \<^verbatim>\<open>_id\<close>,
  \<^verbatim>\<open>title\<close>, \<^verbatim>\<open>year\<close>, \<^verbatim>\<open>directors\<close> and \<^verbatim>\<open>plot\<close> fields, and \<^verbatim>\<open>undefined\<close> when there is no
  such document.
\<close>

theorem obtenerDetalle_by_id:
  assumes "DB w = Some d" and "\<not> is_closed w d" and "ObjectId_of_string movieId = Inr oid"
  shows "fst (obtenerDetalle w conf movieId) =
     Inr (case filter (field_is ''_id'' (BOid oid)) (docs_of w ''movies'') of
            [] \<Rightarrow> Undefined
          | m # ms \<Rightarrow> Doc (only_fields [''_id'', ''title'', ''year'', ''directors'', ''plot''] m))"
proof -
  let ?f = "Find w ''movies'' [(''_id'', Eq (BOid oid))]
      (Some [(''title'', True), (''year'', True), (''directors'', True), (''plot'', True)])
      (SortObj []) (LimBool False) 0"
  obtain r w' where f: "?f = (r, w')" by (cases ?f)
  with Find_by_field [OF assms(1,2) project_details, of "''movies''" "''_id''" oid]
  have r: "r = Inr (Docs (map (only_fields [''_id'', ''title'', ''year'', ''directors'', ''plot''])
             (filter (field_is ''_id'' (BOid oid)) (docs_of w ''movies''))))" by simp
  show ?thesis
    using assms(1,3) f r
    by (cases "filter (field_is ''_id'' (BOid oid)) (docs_of w ''movies'')")
       (simp_all add: obtenerDetalle_def connect_or_log_DB index0_def)
qed

theorem obtenerDetalle_by_id_witness:
  "DB connected = Some (Db 0 ''sample_mflix'') \<and> \<not> is_closed connected (Db 0 ''sample_mflix'') \<and>
   ObjectId_of_string ''6d6f76696530303030303031'' = Inr ''movie0000001'' \<and>
   fst (obtenerDetalle connected cfg ''6d6f76696530303030303031'') =
     Inr (Doc [(''_id'', BOid ''movie0000001''), (''title'', BStr ''The Great Train Robbery''),
         (''year'', BNum 1903), (''directors'', BArr [BStr ''Edwin S. Porter'']),
         (''plot'', BStr ''A group of bandits stage a brazen train hold-up.'')])"
proof -
  note h = conjunct1 [OF movie0000001]
  from obtenerDetalle_by_id
         [OF conjunct1 [OF connected_usable] conjunct2 [OF connected_usable] h, of cfg]
  have "fst (obtenerDetalle connected cfg ''6d6f76696530303030303031'') =
     Inr (Doc [(''_id'', BOid ''movie0000001''), (''title'', BStr ''The Great Train Robbery''),
         (''year'', BNum 1903), (''directors'', BArr [BStr ''Edwin S. Porter'']),
         (''plot'', BStr ''A group of bandits stage a brazen train hold-up.'')])"
    by (simp add: movies_connected field_is_def only_fields_def)
  with connected_usable h show ?thesis by blast
qed

text \<open>
  C4, as stated, fails for the same reason: each comment returned carries its \<^verbatim>\<open>_id\<close>
  besides \<^verbatim>\<open>name\<close>, \<^verbatim>\<open>email\<close>, \<^verbatim>\<open>text\<close> and \<^verbatim>\<open>date\<close>.
\<close>

theorem obtenerComentarios_id_counterexample:
  "fst (obtenerComentarios connected cfg ''movie0000001'') =
     Inr (Docs [[(''_id'', BOid ''comment00001''), (''name'', BStr ''Ana''),
       (''email'', BStr ''ana@x.com''), (''text'', BStr ''great film''), (''date'', BDate 1000)]]) \<and>
   fst (obtenerComentarios connected cfg ''movie0000001'') \<noteq>
     Inr (Docs (map (only_fields [''name'', ''email'', ''text'', ''date''])
                  (filter (field_is ''movie_id'' (BOid ''movie0000001''))
                     (docs_of connected ''comments''))))"
  by code_simp

text \<open>
  C4, amended: with a usable connection and a well-formed identifier, the comments of a
  movie are all and only the documents of \<^verbatim>\<open>comments\<close> whose \<^verbatim>\<open>movie_id\<close> is that
  identifier, in the store's order, each reduced to its \<^verbatim>\<open>_id\<close>, \<^verbatim>\<open>name\<close>, \<^verbatim>\<open>email\<close>,
  \<^verbatim>\<open>text\<close> and \<^verbatim>\<open>date\<close> fields.
\<close>

theorem obtenerComentarios_by_movie:
  assumes "DB w = Some d" and "\<not> is_closed w d" and "ObjectId_of_string movieId = Inr oid"
  shows "fst (obtenerComentarios w conf movieId) =
     Inr (Docs (map (only_fields [''_id'', ''name'', ''email'', ''text'', ''date''])
                  (filter (field_is ''movie_id'' (BOid oid)) (docs_of w ''comments''))))"
proof -
  let ?w2 = "w\<lparr>console := console w @
      [[LStr ''La sentencia es: '', LQuery [(''movie_id'', Eq (BOid oid))]]]\<rparr>"
  have a: "DB ?w2 = Some d" and b: "\<not> is_closed ?w2 d"
    and c: "docs_of ?w2 ''comments'' = docs_of w ''comments''"
    using assms(1,2) by (simp_all add: is_closed_def docs_of_def split: db_handle.splits)
  from Find_by_field [OF a b project_comments, of "''comments''" "''movie_id''" oid] c
  show ?thesis
    using assms(1,3) by (simp add: obtenerComentarios_def connect_or_log_DB Let_def)
qed

theorem obtenerComentarios_by_movie_witness:
  "DB connected = Some (Db 0 ''sample_mflix'') \<and> \<not> is_closed connected (Db 0 ''sample_mflix'') \<and>
   ObjectId_of_string ''6d6f76696530303030303031'' = Inr ''movie0000001'' \<and>
   fst (obtenerComentarios connected cfg ''6d6f76696530303030303031'') =
     Inr (Docs [[(''_id'', BOid ''comment00001''), (''name'', BStr ''Ana''),
       (''email'', BStr ''ana@x.com''), (''text'', BStr ''great film''), (''date'', BDate 1000)]])"
proof -
  note h = conjunct1 [OF movie0000001]
  from obtenerComentarios_by_movie
         [OF conjunct1 [OF connected_usable] conjunct2 [OF connected_usable] h, of cfg]
  have "fst (obtenerComentarios connected cfg ''6d6f76696530303030303031'') =
     Inr (Docs [[(''_id'', BOid ''comment00001''), (''name'', BStr ''Ana''),
       (''email'', BStr ''ana@x.com''), (''text'', BStr ''great film''), (''date'', BDate 1000)]])"
    by (simp add: comments_connected field_is_def only_fields_def)
  with connected_usable h show ?thesis by blast
qed

section \<open>Adding a comment\<close>










end
